theory Spec2Isabelle
  imports Complex_Main
begin

section \<open>Solar geometry of pyet/utils.py\<close>

text \<open>
  The module is a handful of closed formulas over numpy and pandas values. The embedding keeps
  three things of the Python explicit:
  \<^item> a float is an exact real or the not-a-number value: rounding, overflow and the
    infinities of IEEE arithmetic are idealised away, numpy's \<open>pi\<close> is the real \<open>pi\<close>, and
    every literal of the source (\<open>3.141592654\<close>, \<open>0.4093\<close>, ...) is the decimal it is written as;
  \<^item> an operand is a scalar, a pandas \<open>Index\<close> (what a \<open>DatetimeIndex\<close> yields) or a pandas
    \<open>Series\<close> with the default index \<open>0, 1, ...\<close>; an arithmetic operation broadcasts a scalar,
    combines positional sequences as numpy does, and aligns two \<open>Series\<close> on their index;
  \<^item> a call that Python refuses is an error value: \<open>NameError\<close> for a name that the module
    never binds, \<open>TypeError\<close> for the builtin \<open>round\<close> on an \<open>Index\<close>, \<open>ValueError\<close> for
    shapes that do not combine.
\<close>

subsection \<open>Floats with not-a-number\<close>

datatype num = NaN | Num real

fun un_num :: "(real \<Rightarrow> real) \<Rightarrow> num \<Rightarrow> num" where
  "un_num f NaN = NaN"
| "un_num f (Num x) = Num (f x)"

fun bin_num :: "(real \<Rightarrow> real \<Rightarrow> real) \<Rightarrow> num \<Rightarrow> num \<Rightarrow> num" where
  "bin_num f NaN b = NaN"
| "bin_num f (Num x) NaN = NaN"
| "bin_num f (Num x) (Num y) = Num (f x y)"

definition add_num :: "num \<Rightarrow> num \<Rightarrow> num" where
  "add_num = bin_num (\<lambda>x y. x + y)"

definition sub_num :: "num \<Rightarrow> num \<Rightarrow> num" where
  "sub_num = bin_num (\<lambda>x y. x - y)"

definition mul_num :: "num \<Rightarrow> num \<Rightarrow> num" where
  "mul_num = bin_num (\<lambda>x y. x * y)"

definition div_num :: "num \<Rightarrow> num \<Rightarrow> num" where
  \<comment> \<open>only ever used with a non-zero literal as divisor\<close>
  "div_num = bin_num (\<lambda>x y. x / y)"

definition neg_num :: "num \<Rightarrow> num" where
  "neg_num = un_num (\<lambda>x. - x)"

definition sin_num :: "num \<Rightarrow> num" where
  "sin_num = un_num sin"

definition cos_num :: "num \<Rightarrow> num" where
  "cos_num = un_num cos"

definition tan_num :: "num \<Rightarrow> num" where
  \<comment> \<open>HOL's \<open>tan\<close> is \<open>0\<close> where the cosine vanishes; no float is such a point\<close>
  "tan_num = un_num tan"

fun arccos_num :: "num \<Rightarrow> num" where
  \<comment> \<open>numpy's arccos: outside \<open>[-1, 1]\<close> the result is nan (with a warning), nothing is raised\<close>
  "arccos_num NaN = NaN"
| "arccos_num (Num x) = (if - 1 \<le> x \<and> x \<le> 1 then Num (arccos x) else NaN)"

definition rint :: "real \<Rightarrow> real" where
  \<comment> \<open>round to the nearest integer, a tie to the even one\<close>
  "rint x = (let f = \<lfloor>x\<rfloor>; d = x - of_int f
             in if d < 1 / 2 then of_int f
                else if 1 / 2 < d then of_int (f + 1)
                else if even f then of_int f else of_int (f + 1))"

definition round_num :: "nat \<Rightarrow> num \<Rightarrow> num" where
  \<comment> \<open>numpy's rounding to \<open>d\<close> decimals: scale, round to the even integer, scale back\<close>
  "round_num d = un_num (\<lambda>x. rint (x * 10 ^ d) / 10 ^ d)"

subsection \<open>Scalars, sequences and broadcasting\<close>

datatype arr = Scalar num | Index "num list" | Series "num list"

datatype error = NameError string | TypeError | ValueError

definition bindE :: "error + 'a \<Rightarrow> ('a \<Rightarrow> error + 'b) \<Rightarrow> error + 'b" where
  "bindE m f = (case m of Inl e \<Rightarrow> Inl e | Inr v \<Rightarrow> f v)"

fun lift1 :: "(num \<Rightarrow> num) \<Rightarrow> arr \<Rightarrow> arr" where
  "lift1 f (Scalar a) = Scalar (f a)"
| "lift1 f (Index xs) = Index (map f xs)"
| "lift1 f (Series xs) = Series (map f xs)"

definition np_broadcast ::
  "(num \<Rightarrow> num \<Rightarrow> num) \<Rightarrow> num list \<Rightarrow> num list \<Rightarrow> error + num list" where
  \<comment> \<open>numpy on two one-dimensional arrays: equal lengths pair up, a length of one is
      stretched, anything else does not broadcast\<close>
  "np_broadcast f xs ys =
     (if length xs = length ys then Inr (map2 f xs ys)
      else if length xs = 1 then Inr (map (f (hd xs)) ys)
      else if length ys = 1 then Inr (map (\<lambda>x. f x (hd ys)) xs)
      else Inl ValueError)"

definition reindex :: "nat \<Rightarrow> num list \<Rightarrow> num list" where
  \<comment> \<open>a default-indexed \<open>Series\<close> on the index \<open>0 ..< n\<close>: the missing labels hold NaN\<close>
  "reindex n xs = xs @ replicate (n - length xs) NaN"

definition align :: "(num \<Rightarrow> num \<Rightarrow> num) \<Rightarrow> num list \<Rightarrow> num list \<Rightarrow> num list" where
  \<comment> \<open>two \<open>Series\<close>: both are put on the union of their indexes, then paired up\<close>
  "align f xs ys =
     (let n = max (length xs) (length ys) in map2 f (reindex n xs) (reindex n ys))"

definition on_index :: "nat \<Rightarrow> num list \<Rightarrow> error + arr" where
  \<comment> \<open>a \<open>Series\<close> result keeps the index of its \<open>Series\<close> operand, so the lengths must agree\<close>
  "on_index n r = (if length r = n then Inr (Series r) else Inl ValueError)"

fun lift2 :: "(num \<Rightarrow> num \<Rightarrow> num) \<Rightarrow> arr \<Rightarrow> arr \<Rightarrow> error + arr" where
  "lift2 f (Scalar a) (Scalar b) = Inr (Scalar (f a b))"
| "lift2 f (Scalar a) (Index ys) = Inr (Index (map (f a) ys))"
| "lift2 f (Scalar a) (Series ys) = Inr (Series (map (f a) ys))"
| "lift2 f (Index xs) (Scalar b) = Inr (Index (map (\<lambda>x. f x b) xs))"
| "lift2 f (Series xs) (Scalar b) = Inr (Series (map (\<lambda>x. f x b) xs))"
| "lift2 f (Index xs) (Index ys) = bindE (np_broadcast f xs ys) (\<lambda>r. Inr (Index r))"
| "lift2 f (Series xs) (Index ys) = bindE (np_broadcast f xs ys) (on_index (length xs))"
| "lift2 f (Index xs) (Series ys) = bindE (np_broadcast f xs ys) (on_index (length ys))"
| "lift2 f (Series xs) (Series ys) = Inr (Series (align f xs ys))"

definition lit :: "real \<Rightarrow> arr" where
  "lit c = Scalar (Num c)"

subsection \<open>The time index\<close>

text \<open>
  The time index is a \<open>DatetimeIndex\<close>. Of a timestamp the module reads the day of the year,
  through \<open>strftime('%j')\<close>, and the hour. \<open>%j\<close> renders the day of the year as three decimal
  digits, zero padded, and \<open>to_numeric\<close> reads the digits back, into an \<open>Index\<close> again.
\<close>

record timestamp =
  dayofyear :: nat
  hour :: nat

definition digit_char :: "nat \<Rightarrow> char" where
  "digit_char d = ''0123456789'' ! (d mod 10)"

definition strftime_j :: "timestamp list \<Rightarrow> string list" where
  "strftime_j idx =
     map (\<lambda>ts. [digit_char (dayofyear ts div 100), digit_char (dayofyear ts div 10),
                 digit_char (dayofyear ts)]) idx"

definition digit_val :: "char \<Rightarrow> int" where
  "digit_val c = int (of_char c) - 48"

definition to_numeric :: "string list \<Rightarrow> arr" where
  "to_numeric ss = Index (map (\<lambda>s. Num (of_int (foldl (\<lambda>n c. 10 * n + digit_val c) 0 s))) ss)"

definition day_of_year :: "timestamp list \<Rightarrow> arr" where
  "day_of_year meteoindex = to_numeric (strftime_j meteoindex)"

subsection \<open>The functions of the module\<close>

definition solar_declination :: "arr \<Rightarrow> arr" where
  "solar_declination j =
     lift1 (\<lambda>x. mul_num (Num 0.4093)
                  (sin_num (sub_num (mul_num (Num (2 * 3.141592654 / 365)) x) (Num 1.39)))) j"

definition relative_distance :: "arr \<Rightarrow> arr" where
  "relative_distance j =
     lift1 (\<lambda>x. add_num (Num 1)
                  (mul_num (Num 0.033) (cos_num (mul_num (Num (2 * 3.141592654 / 365)) x)))) j"

definition sunset_angle :: "arr \<Rightarrow> arr \<Rightarrow> error + arr" where
  "sunset_angle sol_dec lat =
     bindE (lift2 mul_num (lift1 neg_num (lift1 tan_num sol_dec)) (lift1 tan_num lat))
       (\<lambda>p. Inr (lift1 arccos_num p))"

fun round_py :: "arr \<Rightarrow> nat \<Rightarrow> error + arr" where
  \<comment> \<open>the builtin \<open>round(x, d)\<close> calls \<open>x.__round__(d)\<close>: a float and a \<open>Series\<close> have the
      method, an \<open>Index\<close> has not\<close>
  "round_py (Scalar a) d = Inr (Scalar (round_num d a))"
| "round_py (Index xs) d = Inl TypeError"
| "round_py (Series xs) d = Inr (Series (map (round_num d) xs))"

definition daylight_hours :: "timestamp list \<Rightarrow> arr \<Rightarrow> error + arr" where
  "daylight_hours meteoindex lat =
     (let j = day_of_year meteoindex;
          sol_dec = solar_declination j
      in bindE (sunset_angle sol_dec lat)
           (\<lambda>sangle. round_py (lift1 (mul_num (Num (24 / pi))) sangle) 1))"

text \<open>
  The two statements of \<open>sunset_angle_hour\<close> that compute the seasonal correction:
  \<open>b = 2*pi*(j-81)/364\<close> and \<open>sc = 0.1645*sin(2*b) - 0.1255*cos(b) - 0.025*sin(b)\<close>.
\<close>

definition sunset_angle_hour_b :: "arr \<Rightarrow> arr" where
  "sunset_angle_hour_b j =
     lift1 (\<lambda>x. div_num (mul_num (Num (2 * pi)) (sub_num x (Num 81))) (Num 364)) j"

definition sunset_angle_hour_sc :: "arr \<Rightarrow> arr" where
  "sunset_angle_hour_sc b =
     lift1 (\<lambda>x. sub_num
                  (sub_num (mul_num (Num 0.1645) (sin_num (mul_num (Num 2) x)))
                           (mul_num (Num 0.1255) (cos_num x)))
                  (mul_num (Num 0.025) (sin_num x))) b"

text \<open>
  The global names of the module. Its two import statements bind \<open>tan\<close>, \<open>cos\<close>, \<open>pi\<close>,
  \<open>sin\<close>, \<open>arccos\<close> and \<open>to_numeric\<close>, and \<open>round\<close> is a builtin of Python; these are used
  directly. \<open>clip\<close> and \<open>maximum\<close> are called in \<open>sunset_angle_hour\<close>: a function that
  calls them is evaluated against a namespace that says what, if anything, they are bound to,
  and a call of an unbound name raises \<open>NameError\<close> when the name is loaded, before the
  arguments are evaluated.
\<close>

record globals =
  clip_binding :: "(arr \<Rightarrow> arr \<Rightarrow> arr \<Rightarrow> error + arr) option"
  maximum_binding :: "(arr \<Rightarrow> arr \<Rightarrow> error + arr) option"

definition lookup :: "'a option \<Rightarrow> string \<Rightarrow> error + 'a" where
  "lookup binding name = (case binding of None \<Rightarrow> Inl (NameError name) | Some f \<Rightarrow> Inr f)"

definition module_globals :: globals where
  \<comment> \<open>utils.py imports neither name, defines neither, and neither is a builtin\<close>
  "module_globals = \<lparr>clip_binding = None, maximum_binding = None\<rparr>"

definition sunset_angle_hour_in ::
  "globals \<Rightarrow> timestamp list \<Rightarrow> num \<Rightarrow> num \<Rightarrow> arr \<Rightarrow> arr \<Rightarrow> error + (arr \<times> arr)" where
  "sunset_angle_hour_in g meteoindex lz lm lat sol_dec =
     (let j = day_of_year meteoindex;
          b = sunset_angle_hour_b j;
          sc = sunset_angle_hour_sc b;
          t = Index (map (\<lambda>ts. Num (real (hour ts) + 0.5)) meteoindex)
      in bindE (lift2 add_num
                  (lift1 (\<lambda>x. add_num x (mul_num (Num 0.06667) (sub_num lz lm))) t) sc)
        (\<lambda>s. let sol_t = lift1 (\<lambda>x. sub_num x (Num 12)) s;
                  omega = lit (pi / 12);
                  omega1 = lift1 (\<lambda>x. sub_num x (Num (pi / 24))) omega;
                  omega2 = lift1 (\<lambda>x. add_num x (Num (pi / 24))) omega
              in bindE (lift2 mul_num (lift1 neg_num (lift1 tan_num lat)) (lift1 tan_num sol_dec))
        (\<lambda>p. let omegas = lift1 arccos_num p
              in bindE (lookup (clip_binding g) ''clip'')
        (\<lambda>clip. bindE (clip omega1 (lift1 neg_num omegas) omegas)
        (\<lambda>omega1. bindE (lookup (clip_binding g) ''clip'')
        (\<lambda>clip. bindE (clip omega2 (lift1 neg_num omegas) omegas)
        (\<lambda>omega2. bindE (lookup (maximum_binding g) ''maximum'')
        (\<lambda>maximum. bindE (maximum omega1 omega1)
        (\<lambda>omega1. bindE (lookup (clip_binding g) ''clip'')
        (\<lambda>clip. bindE (clip omega1 (lit (- 100000000)) omega2)
        (\<lambda>omega1. Inr (omega2, omega1))))))))))))"

definition sunset_angle_hour ::
  "timestamp list \<Rightarrow> num \<Rightarrow> num \<Rightarrow> arr \<Rightarrow> arr \<Rightarrow> error + (arr \<times> arr)" where
  "sunset_angle_hour = sunset_angle_hour_in module_globals"

definition extraterrestrial_r :: "timestamp list \<Rightarrow> arr \<Rightarrow> error + arr" where
  "extraterrestrial_r meteoindex lat =
     (let j = day_of_year meteoindex;
          dr = relative_distance j;
          sol_dec = solar_declination j
      in bindE (sunset_angle lat sol_dec)
        (\<lambda>omega. bindE (lift2 mul_num (lift1 sin_num sol_dec) (lift1 sin_num lat))
        (\<lambda>xx. bindE (lift2 mul_num (lift1 cos_num sol_dec) (lift1 cos_num lat))
        (\<lambda>yy. bindE (lift2 mul_num omega xx)
        (\<lambda>u. bindE (lift2 mul_num yy (lift1 sin_num omega))
        (\<lambda>v. bindE (lift2 add_num u v)
        (\<lambda>w. lift2 mul_num (lift1 (mul_num (Num (118.08 / 3.141592654))) dr) w)))))))"

definition extraterrestrial_r_hour_in ::
  "globals \<Rightarrow> timestamp list \<Rightarrow> arr \<Rightarrow> num \<Rightarrow> num \<Rightarrow> error + arr" where
  "extraterrestrial_r_hour_in g meteoindex lat lz lm =
     (let j = day_of_year meteoindex;
          dr = relative_distance j;
          sol_dec = solar_declination j
      in bindE (sunset_angle_hour_in g meteoindex lz lm lat sol_dec)
        (\<lambda>(omega2, omega1).
           bindE (lift2 mul_num (lift1 sin_num sol_dec) (lift1 sin_num lat))
        (\<lambda>xx. bindE (lift2 mul_num (lift1 cos_num sol_dec) (lift1 cos_num lat))
        (\<lambda>yy. let gsc = 4.92
               in bindE (lift2 sub_num omega2 omega1)
        (\<lambda>d. bindE (lift2 mul_num d xx)
        (\<lambda>u. bindE (lift2 sub_num (lift1 sin_num omega2) (lift1 sin_num omega1))
        (\<lambda>e. bindE (lift2 mul_num yy e)
        (\<lambda>v. bindE (lift2 add_num u v)
        (\<lambda>w. lift2 mul_num (lift1 (mul_num (Num (12 / pi * gsc))) dr) w)))))))))"

definition extraterrestrial_r_hour :: "timestamp list \<Rightarrow> arr \<Rightarrow> num \<Rightarrow> num \<Rightarrow> error + arr" where
  "extraterrestrial_r_hour = extraterrestrial_r_hour_in module_globals"

section \<open>Broadcasting and the error monad\<close>

lemma map2_swap:
  assumes "\<And>x y. f x y = g y x"
  shows "map2 f xs ys = map2 g ys xs"
proof -
  have "zip xs ys = map (\<lambda>(y, x). (x, y)) (zip ys xs)"
    by (rule zip_commute)
  then show ?thesis
    by (simp add: assms case_prod_unfold)
qed

lemma np_broadcast_swap:
  assumes "\<And>x y. f x y = g y x"
  shows "np_broadcast f xs ys = np_broadcast g ys xs"
proof -
  have m: "map2 f xs ys = map2 g ys xs"
    by (rule map2_swap) (rule assms)
  have l: "map (f (hd xs)) ys = map (\<lambda>y. g y (hd xs)) ys"
    by (simp add: assms)
  have r: "map (\<lambda>x. f x (hd ys)) xs = map (g (hd ys)) xs"
    by (simp add: assms)
  show ?thesis
    unfolding np_broadcast_def m l r by auto
qed

lemma align_swap:
  assumes "\<And>x y. f x y = g y x"
  shows "align f xs ys = align g ys xs"
  unfolding align_def Let_def
  by (simp only: max.commute [of "length xs"] map2_swap [of f g, OF assms])

lemma lift2_swap:
  assumes "\<And>x y. f x y = g y x"
  shows "lift2 f a b = lift2 g b a"
  by (cases a; cases b)
     (simp_all add: assms np_broadcast_swap [of f g, OF assms] align_swap [of f g, OF assms])

lemma lift1_lift1: "lift1 f (lift1 g a) = lift1 (\<lambda>x. f (g x)) a"
  by (cases a) simp_all

lemma np_broadcast_map:
  "np_broadcast f (map g xs) (map h ys) = np_broadcast (\<lambda>x y. f (g x) (h y)) xs ys"
proof -
  have hx: "length xs = 1 \<Longrightarrow> hd (map g xs) = g (hd xs)"
    by (cases xs) simp_all
  have hy: "length ys = 1 \<Longrightarrow> hd (map h ys) = h (hd ys)"
    by (cases ys) simp_all
  show ?thesis
    unfolding np_broadcast_def
    by (simp add: hx hy zip_map_map case_prod_unfold comp_def)
qed

lemma reindex_map: "g NaN = NaN \<Longrightarrow> reindex n (map g xs) = map g (reindex n xs)"
  by (simp add: reindex_def)

lemma align_map:
  assumes "g NaN = NaN" "h NaN = NaN"
  shows "align f (map g xs) (map h ys) = align (\<lambda>x y. f (g x) (h y)) xs ys"
  unfolding align_def Let_def
  by (simp add: reindex_map assms zip_map_map case_prod_unfold comp_def)

lemma lift2_lift1:
  assumes "g NaN = NaN" "h NaN = NaN"
  shows "lift2 f (lift1 g a) (lift1 h b) = lift2 (\<lambda>x y. f (g x) (h y)) a b"
  by (cases a; cases b) (simp_all add: np_broadcast_map align_map assms)

lemma np_broadcast_error: "np_broadcast f xs ys = Inl e \<Longrightarrow> e = ValueError"
  by (auto simp add: np_broadcast_def split: if_splits)

lemma lift2_error: "lift2 f a b = Inl e \<Longrightarrow> e = ValueError"
  by (cases a; cases b)
     (auto simp add: bindE_def on_index_def split: sum.splits if_splits dest: np_broadcast_error)

section \<open>The time index\<close>

lemma day_of_year_length: "\<exists>xs. day_of_year idx = Index xs \<and> length xs = length idx"
  by (simp add: day_of_year_def to_numeric_def strftime_j_def)

lemma day_of_year_nums: "\<exists>js. day_of_year idx = Index (map Num js) \<and> length js = length idx"
proof -
  have "day_of_year idx =
          Index (map Num (map (\<lambda>s. of_int (foldl (\<lambda>n c. 10 * n + digit_val c) 0 s))
                            (strftime_j idx)))"
    by (simp add: day_of_year_def to_numeric_def)
  moreover have "length (map (\<lambda>s. real_of_int (foldl (\<lambda>n c. 10 * n + digit_val c) 0 s))
                           (strftime_j idx)) = length idx"
    by (simp add: strftime_j_def)
  ultimately show ?thesis by blast
qed

lemma day_of_year_81: "day_of_year [\<lparr>dayofyear = 81, hour = h\<rparr>] = Index [Num 81]"
  by (simp add: day_of_year_def to_numeric_def strftime_j_def digit_char_def digit_val_def)

section \<open>The literal 3.141592654 is not pi\<close>

text \<open>
  \<open>solar_declination\<close>, \<open>relative_distance\<close> and \<open>extraterrestrial_r\<close> write pi as the literal
  \<open>3.141592654\<close>, the other functions use numpy's \<open>pi\<close>. The literal lies strictly above pi;
  the bound comes from Machin's formula and the alternating series of the arctangent.
\<close>

lemma arctan_alt_bounds:
  fixes x :: real
  assumes x0: "0 \<le> x" and x1: "x \<le> 1"
  shows "(\<Sum>k<2 * n. (- 1) ^ k * (1 / real (k * 2 + 1) * x ^ (k * 2 + 1))) \<le> arctan x"
    and "arctan x \<le> (\<Sum>k<2 * n + 1. (- 1) ^ k * (1 / real (k * 2 + 1) * x ^ (k * 2 + 1)))"
proof -
  define a where "a = (\<lambda>k. 1 / real (k * 2 + 1) * x ^ (k * 2 + 1))"
  have ax: "\<bar>x\<bar> \<le> 1" using x0 x1 by simp
  have lim: "a \<longlonglongrightarrow> 0"
    unfolding a_def by (rule zeroseq_arctan_series [OF ax])
  have pos: "0 \<le> a k" for k
    unfolding a_def using x0 by simp
  have dec: "a (Suc k) \<le> a k" for k
  proof -
    have p: "x ^ (Suc k * 2 + 1) \<le> x ^ (k * 2 + 1)"
      using x0 x1 by (intro power_decreasing) simp_all
    have q: "1 / real (Suc k * 2 + 1) \<le> 1 / real (k * 2 + 1)"
      by (simp add: field_simps)
    show ?thesis
      unfolding a_def using p q x0 by (intro mult_mono) simp_all
  qed
  have ser: "arctan x = (\<Sum>k. (- 1) ^ k * a k)"
    unfolding a_def by (rule arctan_series [OF ax])
  have lo: "(\<Sum>k<2 * n. (- 1) ^ k * a k) \<le> (\<Sum>k. (- 1) ^ k * a k)"
    by (rule summable_Leibniz'(2) [where a = a, OF lim pos dec])
  have hi: "(\<Sum>k. (- 1) ^ k * a k) \<le> (\<Sum>k<2 * n + 1. (- 1) ^ k * a k)"
    by (rule summable_Leibniz'(4) [where a = a, OF lim pos dec])
  show "(\<Sum>k<2 * n. (- 1) ^ k * (1 / real (k * 2 + 1) * x ^ (k * 2 + 1))) \<le> arctan x"
    using lo ser by (simp add: a_def)
  show "arctan x \<le> (\<Sum>k<2 * n + 1. (- 1) ^ k * (1 / real (k * 2 + 1) * x ^ (k * 2 + 1)))"
    using hi ser by (simp add: a_def)
qed

lemma pi_below_literal: "pi < 3.141592654"
proof -
  have m: "pi = 16 * arctan (1 / 5) - 4 * arctan (1 / 239)"
    using machin by simp
  have u: "arctan (1 / 5) \<le>
             (\<Sum>k<2 * 3 + 1. (- 1) ^ k * (1 / real (k * 2 + 1) * (1 / 5) ^ (k * 2 + 1)))"
    by (rule arctan_alt_bounds(2)) simp_all
  have l: "(\<Sum>k<2 * 1. (- 1) ^ k * (1 / real (k * 2 + 1) * (1 / 239) ^ (k * 2 + 1))) \<le>
             arctan (1 / 239)"
    by (rule arctan_alt_bounds(1)) simp_all
  show ?thesis
    unfolding m using u l by (simp add: eval_nat_numeral)
qed

lemma pi_above_3141: "3.1415 < pi"
proof -
  have m: "pi = 16 * arctan (1 / 5) - 4 * arctan (1 / 239)"
    using machin by simp
  have l: "(\<Sum>k<2 * 2. (- 1) ^ k * (1 / real (k * 2 + 1) * (1 / 5) ^ (k * 2 + 1))) \<le>
             arctan (1 / 5)"
    by (rule arctan_alt_bounds(1)) simp_all
  have u: "arctan (1 / 239) \<le>
             (\<Sum>k<2 * 0 + 1. (- 1) ^ k * (1 / real (k * 2 + 1) * (1 / 239) ^ (k * 2 + 1)))"
    by (rule arctan_alt_bounds(2)) simp_all
  show ?thesis
    unfolding m using u l by (simp add: eval_nat_numeral)
qed

section \<open>Solar declination and relative distance\<close>

lemma solar_declination_scalar:
  "solar_declination (Scalar (Num j)) =
     Scalar (Num (0.4093 * sin (2 * 3.141592654 / 365 * j - 1.39)))"
  by (simp add: solar_declination_def mul_num_def sin_num_def sub_num_def)

lemma solar_declination_series:
  "solar_declination (Series (map Num js)) =
     Series (map (\<lambda>j. Num (0.4093 * sin (2 * 3.141592654 / 365 * j - 1.39))) js)"
  by (simp add: solar_declination_def mul_num_def sin_num_def sub_num_def)

lemma declination_amplitude:
  "- 1 \<le> (s::real) \<Longrightarrow> s \<le> 1 \<Longrightarrow> - 0.41 \<le> 0.4093 * s \<and> 0.4093 * s \<le> 0.41"
  by (simp add: field_simps)

text \<open>
  C6, as the code has it. \<open>solar_declination\<close> is total and element-wise, on a scalar and on
  a sequence, and computes \<open>0.4093 * sin(2 * 3.141592654 / 365 * j - 1.39)\<close>: the factor of
  \<open>j\<close> is built from the literal \<open>3.141592654\<close>, not from pi. For every real \<open>j\<close>, and so for
  every day of the year, the value lies in \<open>[-0.41, 0.41]\<close>.
\<close>

theorem solar_declination_formula:
  "solar_declination (Scalar (Num j)) =
     Scalar (Num (0.4093 * sin (2 * 3.141592654 / 365 * j - 1.39))) \<and>
   solar_declination (Series (map Num js)) =
     Series (map (\<lambda>j. Num (0.4093 * sin (2 * 3.141592654 / 365 * j - 1.39))) js) \<and>
   (\<exists>v. solar_declination (Scalar (Num j)) = Scalar (Num v) \<and> - 0.41 \<le> v \<and> v \<le> 0.41)"
proof -
  define v where "v = 0.4093 * sin (2 * 3.141592654 / 365 * j - 1.39)"
  have b: "- 0.41 \<le> v \<and> v \<le> 0.41"
    unfolding v_def by (rule declination_amplitude) simp_all
  have s: "solar_declination (Scalar (Num j)) = Scalar (Num v)"
    unfolding v_def by (rule solar_declination_scalar)
  from s b have "\<exists>v. solar_declination (Scalar (Num j)) = Scalar (Num v) \<and> - 0.41 \<le> v \<and> v \<le> 0.41"
    by blast
  then show ?thesis
    using solar_declination_scalar [of j] solar_declination_series [of js] by blast
qed

text \<open>
  C6 as stated, with pi in the formula, fails on day 365: the code returns
  \<open>0.4093 * sin(2 * 3.141592654 - 1.39)\<close>, which is not \<open>0.4093 * sin(2 * pi - 1.39)\<close>.
\<close>

theorem solar_declination_pi_counterexample:
  "solar_declination (Scalar (Num 365)) \<noteq>
     Scalar (Num (0.4093 * sin (2 * pi / 365 * 365 - 1.39)))"
proof
  assume "solar_declination (Scalar (Num 365)) =
            Scalar (Num (0.4093 * sin (2 * pi / 365 * 365 - 1.39)))"
  then have e: "sin (2 * 3.141592654 - 1.39) = sin (2 * pi - 1.39 :: real)"
    by (simp add: solar_declination_scalar)
  define x :: real where "x = 2 * 3.141592654 - 2 * pi - 1.39"
  have "sin (x + 2 * pi) = sin (2 * 3.141592654 - 1.39 :: real)"
    unfolding x_def by (rule arg_cong [where f = sin]) simp
  then have sx: "sin x = sin (2 * 3.141592654 - 1.39 :: real)"
    by simp
  have sy: "sin (- 1.39 :: real) = sin (2 * pi - 1.39)"
    by simp
  have b1: "- (pi / 2) \<le> x" "x \<le> pi / 2"
    unfolding x_def using pi_below_literal pi_above_3141 by simp_all
  have b2: "- (pi / 2) \<le> (- 1.39 :: real)" "(- 1.39 :: real) \<le> pi / 2"
    using pi_above_3141 by simp_all
  have "x = - 1.39"
    using sin_inj_pi [OF b1 b2] sx sy e by simp
  then show False
    unfolding x_def using pi_below_literal by simp
qed

lemma solar_declination_index:
  "solar_declination (Index (map Num js)) =
     Index (map (\<lambda>j. Num (0.4093 * sin (2 * 3.141592654 / 365 * j - 1.39))) js)"
  by (simp add: solar_declination_def mul_num_def sin_num_def sub_num_def)

lemma relative_distance_scalar:
  "relative_distance (Scalar (Num j)) =
     Scalar (Num (1 + 0.033 * cos (2 * 3.141592654 / 365 * j)))"
  by (simp add: relative_distance_def mul_num_def cos_num_def add_num_def)

lemma relative_distance_series:
  "relative_distance (Series (map Num js)) =
     Series (map (\<lambda>j. Num (1 + 0.033 * cos (2 * 3.141592654 / 365 * j))) js)"
  by (simp add: relative_distance_def mul_num_def cos_num_def add_num_def)

lemma distance_amplitude:
  "- 1 \<le> (s::real) \<Longrightarrow> s \<le> 1 \<Longrightarrow> 0.967 \<le> 1 + 0.033 * s \<and> 1 + 0.033 * s \<le> 1.033"
  by (simp add: field_simps)

text \<open>
  C7, as the code has it. \<open>relative_distance\<close> is total and element-wise, on a scalar and on
  a sequence, and computes \<open>1 + 0.033 * cos(2 * 3.141592654 / 365 * j)\<close>, again with the literal
  in place of pi. For every real \<open>j\<close> the value lies in \<open>[0.967, 1.033]\<close>.
\<close>

theorem relative_distance_formula:
  "relative_distance (Scalar (Num j)) =
     Scalar (Num (1 + 0.033 * cos (2 * 3.141592654 / 365 * j))) \<and>
   relative_distance (Series (map Num js)) =
     Series (map (\<lambda>j. Num (1 + 0.033 * cos (2 * 3.141592654 / 365 * j))) js) \<and>
   (\<exists>v. relative_distance (Scalar (Num j)) = Scalar (Num v) \<and> 0.967 \<le> v \<and> v \<le> 1.033)"
proof -
  define v where "v = 1 + 0.033 * cos (2 * 3.141592654 / 365 * j)"
  have b: "0.967 \<le> v \<and> v \<le> 1.033"
    unfolding v_def by (rule distance_amplitude) simp_all
  have s: "relative_distance (Scalar (Num j)) = Scalar (Num v)"
    unfolding v_def by (rule relative_distance_scalar)
  from s b have "\<exists>v. relative_distance (Scalar (Num j)) = Scalar (Num v) \<and> 0.967 \<le> v \<and> v \<le> 1.033"
    by blast
  then show ?thesis
    using relative_distance_scalar [of j] relative_distance_series [of js] by blast
qed

text \<open>
  C7 as stated, with pi in the formula, fails on day 100: the code returns
  \<open>1 + 0.033 * cos(2 * 3.141592654 / 365 * 100)\<close>, and the cosine is injective on \<open>[0, pi]\<close>,
  where both arguments lie.
\<close>

theorem relative_distance_pi_counterexample:
  "relative_distance (Scalar (Num 100)) \<noteq> Scalar (Num (1 + 0.033 * cos (2 * pi / 365 * 100)))"
proof
  assume "relative_distance (Scalar (Num 100)) =
            Scalar (Num (1 + 0.033 * cos (2 * pi / 365 * 100)))"
  then have e: "cos (2 * 3.141592654 / 365 * 100) = cos (2 * pi / 365 * 100 :: real)"
    by (simp add: relative_distance_scalar)
  have b1: "0 \<le> (2 * 3.141592654 / 365 * 100 :: real)" "(2 * 3.141592654 / 365 * 100 :: real) \<le> pi"
    using pi_above_3141 by simp_all
  have b2: "0 \<le> 2 * pi / 365 * 100" "2 * pi / 365 * 100 \<le> pi"
    using pi_gt_zero by simp_all
  have "(2 * 3.141592654 / 365 * 100 :: real) = 2 * pi / 365 * 100"
    using cos_inj_pi [OF b1 b2 e] .
  then show False
    using pi_below_literal by simp
qed

section \<open>The sunset hour angle\<close>

lemma neg_tan_mul_swap:
  "mul_num (neg_num (tan_num x)) (tan_num y) = mul_num (neg_num (tan_num y)) (tan_num x)"
  by (cases x; cases y) (simp_all add: mul_num_def neg_num_def tan_num_def)

lemma sunset_angle_product:
  "lift2 mul_num (lift1 neg_num (lift1 tan_num a)) (lift1 tan_num b) =
     lift2 (\<lambda>x y. mul_num (neg_num (tan_num x)) (tan_num y)) a b"
  unfolding lift1_lift1
  by (rule lift2_lift1) (simp_all add: neg_num_def tan_num_def)

lemma sunset_angle_swap_aux: "sunset_angle a b = sunset_angle b a"
  unfolding sunset_angle_def sunset_angle_product
  by (rule arg_cong [where f = "\<lambda>m. bindE m _"], rule lift2_swap) (rule neg_tan_mul_swap)


lemma sunset_angle_equator:
  "sunset_angle (Index (map (\<lambda>j. Num (f j)) js)) (Scalar (Num 0)) =
     Inr (Index (map (\<lambda>j. Num (pi / 2)) js))"
  by (simp add: sunset_angle_def bindE_def mul_num_def neg_num_def tan_num_def)

lemma map2_same: "map2 f (map a js) (map b js) = map (\<lambda>j. f (a j) (b j)) js"
  by (induction js) simp_all

lemma sunset_angle_equator_series:
  "sunset_angle (Index (map (\<lambda>j. Num (f j)) js)) (Series (map (\<lambda>j. Num 0) js)) =
     Inr (Series (map (\<lambda>j. Num (pi / 2)) js))"
proof -
  have "map2 mul_num (map (\<lambda>j. Num (- tan (f j))) js) (map (\<lambda>j. Num (tan 0)) js) =
          map (\<lambda>j. Num 0) js"
    unfolding map2_same by (simp add: mul_num_def)
  then show ?thesis
    by (simp add: sunset_angle_def bindE_def np_broadcast_def on_index_def neg_num_def
        tan_num_def comp_def)
qed

lemma sunset_angle_index_scalar: "\<exists>r. sunset_angle (Index xs) (Scalar lat) = Inr (Index r)"
  by (simp add: sunset_angle_def bindE_def)



text \<open>
  C4, as the code has it. \<open>sunset_angle\<close> is symmetric in its two arguments, scalars or
  sequences, NaN and mismatched lengths included: the product of the two tangents commutes
  and the sign may sit on either factor. So the call \<open>sunset_angle(lat, sol_dec)\<close> in
  \<open>extraterrestrial_r\<close> computes the same omega as the declared order
  \<open>sunset_angle(sol_dec, lat)\<close> would.
\<close>

theorem sunset_angle_order_irrelevant:
  "sunset_angle lat sol_dec = sunset_angle sol_dec lat \<and>
   sunset_angle lat (solar_declination (day_of_year meteoindex)) =
     sunset_angle (solar_declination (day_of_year meteoindex)) lat"
  using sunset_angle_swap_aux by blast

text \<open>
  C4 as stated says that some declination and latitude give different results in the two
  orders. There are none.
\<close>

theorem sunset_angle_swap_counterexample:
  "\<not> (\<exists>sol_dec lat. sunset_angle lat sol_dec \<noteq> sunset_angle sol_dec lat)"
  using sunset_angle_swap_aux by blast

section \<open>Daylight hours\<close>

lemma round_twelve: "round_num 1 (mul_num (Num (24 / pi)) (Num (pi / 2))) = Num 12"
  by (simp add: round_num_def mul_num_def rint_def)

text \<open>
  C5. \<open>daylight_hours(idx, lat)\<close> is \<open>round(24/pi * sunset_angle(solar_declination(
  day_of_year(idx)), lat), 1)\<close>: it ends as that composition ends, with the same value or
  with the same error, be it the error of \<open>sunset_angle\<close> or that of \<open>round\<close>.
\<close>

theorem daylight_hours_composite:
  "daylight_hours idx lat =
     bindE (sunset_angle (solar_declination (day_of_year idx)) lat)
       (\<lambda>sangle. round_py (lift1 (mul_num (Num (24 / pi))) sangle) 1)"
  by (simp add: daylight_hours_def)

lemma solar_declination_of_index: "\<exists>ys. solar_declination (Index xs) = Index ys"
  by (simp add: solar_declination_def)

text \<open>
  C8 says that at latitude \<open>0\<close> \<open>daylight_hours\<close> returns \<open>12.0\<close> for every day of the year.
  It returns nothing: for every time index and every latitude given as a float, the index of
  day 81 at noon and latitude \<open>0\<close> among them, the product \<open>24 / pi * sangle\<close> is an \<open>Index\<close>,
  and the builtin \<open>round\<close> raises \<open>TypeError\<close> on it.
\<close>

theorem daylight_hours_raises_TypeError:
  "daylight_hours [\<lparr>dayofyear = 81, hour = 12\<rparr>] (Scalar (Num 0)) = Inl TypeError \<and>
   daylight_hours idx (Scalar lat) = Inl TypeError"
proof -
  have g: "daylight_hours i (Scalar l) = Inl TypeError" for i l
  proof -
    obtain xs where xs: "day_of_year i = Index xs"
      using day_of_year_length by blast
    obtain ys where ys: "solar_declination (Index xs) = Index ys"
      using solar_declination_of_index by blast
    obtain r where r: "sunset_angle (Index ys) (Scalar l) = Inr (Index r)"
      using sunset_angle_index_scalar by blast
    show ?thesis
      unfolding daylight_hours_def Let_def xs ys r by (simp add: bindE_def)
  qed
  show ?thesis using g by simp
qed

text \<open>
  The rounding is reached when the latitude is a \<open>Series\<close> along the index, which makes the
  product a \<open>Series\<close>; at latitude \<open>0\<close> the result is then \<open>12.0\<close> in every entry.
\<close>

lemma daylight_hours_equator_series:
  "daylight_hours idx (Series (map (\<lambda>ts. Num 0) idx)) = Inr (Series (map (\<lambda>ts. Num 12) idx))"
proof -
  obtain js where js: "day_of_year idx = Index (map Num js)" and len: "length js = length idx"
    using day_of_year_nums by blast
  have z: "map (\<lambda>ts. Num 0) idx = map (\<lambda>j. Num 0) js"
    using len by (simp add: map_replicate_const)
  have "daylight_hours idx (Series (map (\<lambda>ts. Num 0) idx)) =
          Inr (Series (map (\<lambda>j. round_num 1 (mul_num (Num (24 / pi)) (Num (pi / 2)))) js))"
    unfolding daylight_hours_def Let_def js z solar_declination_index sunset_angle_equator_series
    by (simp add: bindE_def comp_def)
  also have "map (\<lambda>j. round_num 1 (mul_num (Num (24 / pi)) (Num (pi / 2)))) js =
             map (\<lambda>ts. Num 12) idx"
    unfolding round_twelve using len by (simp add: map_replicate_const)
  finally show ?thesis .
qed

section \<open>The hourly sunset angles\<close>

text \<open>
  C9. On day 81 of the year the seasonal correction \<open>b\<close> of \<open>sunset_angle_hour\<close> is \<open>0\<close> and
  the time-correction term \<open>sc\<close> is \<open>-0.1255\<close>, for the \<open>Index\<close> that \<open>day_of_year\<close> yields
  and for a \<open>Series\<close> alike.
\<close>

theorem seasonal_correction_day_81:
  "day_of_year [\<lparr>dayofyear = 81, hour = h\<rparr>] = Index [Num 81] \<and>
   sunset_angle_hour_b (Index [Num 81]) = Index [Num 0] \<and>
   sunset_angle_hour_sc (sunset_angle_hour_b (Index [Num 81])) = Index [Num (- 0.1255)] \<and>
   sunset_angle_hour_b (Series [Num 81]) = Series [Num 0] \<and>
   sunset_angle_hour_sc (sunset_angle_hour_b (Series [Num 81])) = Series [Num (- 0.1255)]"
  by (simp add: day_of_year_81 sunset_angle_hour_b_def sunset_angle_hour_sc_def
      div_num_def mul_num_def sub_num_def sin_num_def cos_num_def)

text \<open>
  The solar time \<open>sol_t\<close> adds two sequences as long as the time index, so computing it never
  raises; and nothing after it reads \<open>j\<close>, \<open>b\<close>, \<open>sc\<close>, \<open>t\<close> or \<open>sol_t\<close>. What is left of the
  function is the sunset bound and the four calls of \<open>clip\<close> and \<open>maximum\<close>.
\<close>

lemma solar_time_defined:
  "\<exists>s. lift2 add_num (lift1 f (Index (map h idx)))
         (sunset_angle_hour_sc (sunset_angle_hour_b (day_of_year idx))) = Inr s"
proof -
  obtain xs where xs: "day_of_year idx = Index xs" and len: "length xs = length idx"
    using day_of_year_length by blast
  show ?thesis
    by (simp add: xs len sunset_angle_hour_sc_def sunset_angle_hour_b_def np_broadcast_def bindE_def)
qed

lemma sunset_angle_hour_in_core:
  "sunset_angle_hour_in g idx lz lm lat sol_dec =
     bindE (lift2 mul_num (lift1 neg_num (lift1 tan_num lat)) (lift1 tan_num sol_dec))
        (\<lambda>p. bindE (lookup (clip_binding g) ''clip'')
        (\<lambda>clip. bindE (clip (lift1 (\<lambda>x. sub_num x (Num (pi / 24))) (lit (pi / 12)))
                          (lift1 neg_num (lift1 arccos_num p)) (lift1 arccos_num p))
        (\<lambda>omega1. bindE (lookup (clip_binding g) ''clip'')
        (\<lambda>clip. bindE (clip (lift1 (\<lambda>x. add_num x (Num (pi / 24))) (lit (pi / 12)))
                          (lift1 neg_num (lift1 arccos_num p)) (lift1 arccos_num p))
        (\<lambda>omega2. bindE (lookup (maximum_binding g) ''maximum'')
        (\<lambda>maximum. bindE (maximum omega1 omega1)
        (\<lambda>omega1. bindE (lookup (clip_binding g) ''clip'')
        (\<lambda>clip. bindE (clip omega1 (lit (- 100000000)) omega2)
        (\<lambda>omega1. Inr (omega2, omega1))))))))))"
proof -
  obtain s where s: "lift2 add_num
      (lift1 (\<lambda>x. add_num x (mul_num (Num 0.06667) (sub_num lz lm)))
         (Index (map (\<lambda>ts. Num (real (hour ts) + 0.5)) idx)))
      (sunset_angle_hour_sc (sunset_angle_hour_b (day_of_year idx))) = Inr s"
    using solar_time_defined by blast
  show ?thesis
    unfolding sunset_angle_hour_in_def Let_def s by (simp add: bindE_def)
qed

lemma sunset_angle_hour_module:
  "sunset_angle_hour idx lz lm lat sol_dec =
     bindE (lift2 mul_num (lift1 neg_num (lift1 tan_num lat)) (lift1 tan_num sol_dec))
       (\<lambda>p. Inl (NameError ''clip''))"
  unfolding sunset_angle_hour_def sunset_angle_hour_in_core
  by (simp add: module_globals_def lookup_def bindE_def)

text \<open>
  C10. The outcome of \<open>sunset_angle_hour\<close> does not depend on the time index, \<open>lz\<close> or \<open>lm\<close>:
  two runs with the same \<open>lat\<close> and \<open>sol_dec\<close> end the same way, in the module as it is and
  under any binding of \<open>clip\<close> and \<open>maximum\<close>, since \<open>omega\<close> is the constant \<open>pi/12\<close> and
  \<open>sol_t\<close> is never read.
\<close>

theorem sunset_angle_hour_ignores_time_and_longitude:
  "sunset_angle_hour idx lz lm lat sol_dec = sunset_angle_hour idx' lz' lm' lat sol_dec \<and>
   sunset_angle_hour_in g idx lz lm lat sol_dec = sunset_angle_hour_in g idx' lz' lm' lat sol_dec"
  unfolding sunset_angle_hour_def sunset_angle_hour_in_core by simp

text \<open>
  C2 says that \<open>sunset_angle_hour\<close> returns a pair with \<open>omega1 \<le> omega2\<close>. In the module as
  it is, no call returns: the first call of \<open>clip\<close> raises \<open>NameError\<close>, unless the product of
  the tangents has already failed on two sequences of different lengths.
\<close>

theorem sunset_angle_hour_never_returns:
  "sunset_angle_hour idx lz lm lat sol_dec = Inl (NameError ''clip'') \<or>
   sunset_angle_hour idx lz lm lat sol_dec = Inl ValueError"
  unfolding sunset_angle_hour_module
  by (cases "lift2 mul_num (lift1 neg_num (lift1 tan_num lat)) (lift1 tan_num sol_dec)")
     (auto simp add: bindE_def dest: lift2_error)

text \<open>
  C1 says that every call of \<open>sunset_angle_hour\<close> and of \<open>extraterrestrial_r_hour\<close> completes
  and returns. For the one-entry index of day 81 at noon, latitude \<open>0\<close>, declination \<open>0\<close> and
  both longitudes \<open>0\<close>, each of the two raises \<open>NameError\<close> for \<open>clip\<close>.
\<close>

theorem hourly_functions_raise_NameError:
  "sunset_angle_hour [\<lparr>dayofyear = 81, hour = 12\<rparr>] (Num 0) (Num 0) (Scalar (Num 0))
     (Series [Num 0]) = Inl (NameError ''clip'') \<and>
   extraterrestrial_r_hour [\<lparr>dayofyear = 81, hour = 12\<rparr>] (Scalar (Num 0)) (Num 0) (Num 0) =
     Inl (NameError ''clip'')"
proof -
  have a: "sunset_angle_hour idx lz lm (Scalar lat) sol_dec = Inl (NameError ''clip'')"
    for idx lz lm lat sol_dec
    unfolding sunset_angle_hour_module by (cases sol_dec) (simp_all add: bindE_def)
  have b: "extraterrestrial_r_hour idx (Scalar lat) lz lm = Inl (NameError ''clip'')"
    for idx lz lm lat
    unfolding extraterrestrial_r_hour_def extraterrestrial_r_hour_in_def Let_def
      a [unfolded sunset_angle_hour_def]
    by (simp add: bindE_def)
  show ?thesis using a b by simp
qed

end
